theory Spec2Isabelle
  imports Main
begin

section \<open>Python values shared by the models\<close>

text \<open>
  Exceptions are values. \<open>ClientError code text\<close> is botocore's \<open>ClientError\<close> with
  \<open>e.response['Error']['Code'] = code\<close> and \<open>str(e) = text\<close>;
  \<open>OtherException text\<close> is any other subclass of \<open>Exception\<close>.
  \<open>MetadataLimitExceededError\<close> keeps the three attributes its constructor stores.
\<close>

datatype exn =
    ClientError string string
  | MetadataLimitExceededError string nat int
  | TypeError string
  | KeyError string
  | ValueError string
  | RuntimeError string
  | OtherException string

definition digit_char :: "nat \<Rightarrow> char" where
  "digit_char d = ''0123456789'' ! (d mod 10)"

text \<open>\<open>str(n)\<close> of a non-negative integer: its decimal digits.\<close>

function str_nat :: "nat \<Rightarrow> string" where
  "str_nat n = (if n < 10 then [digit_char n] else str_nat (n div 10) @ [digit_char (n mod 10)])"
  by pat_completeness auto
termination
  by (relation "measure (\<lambda>n. n)") auto

declare str_nat.simps [simp del]

definition str_int :: "int \<Rightarrow> string" where
  "str_int i = (if i < 0 then CHR ''-'' # str_nat (nat (- i)) else str_nat (nat i))"

text \<open>\<open>repr\<close> of a \<open>str\<close> of printable ASCII characters, and of a list of them.\<close>

definition repr_str :: "string \<Rightarrow> string" where
  "repr_str s =
     (if CHR 0x27 \<in> set s \<and> CHR 0x22 \<notin> set s
      then [CHR 0x22] @ concat (map (\<lambda>c. if c = CHR 0x5C then [c, c] else [c]) s) @ [CHR 0x22]
      else [CHR 0x27]
           @ concat (map (\<lambda>c. if c = CHR 0x5C \<or> c = CHR 0x27 then [CHR 0x5C, c] else [c]) s)
           @ [CHR 0x27])"

fun join_comma :: "string list \<Rightarrow> string" where
  "join_comma [] = []"
| "join_comma [x] = x"
| "join_comma (x # y # rest) = x @ '', '' @ join_comma (y # rest)"

definition repr_keys :: "string list \<Rightarrow> string" where
  "repr_keys ks = ''['' @ join_comma (map repr_str ks) @ '']''"

text \<open>
  \<open>str(e)\<close>: the message the exception was built with; for a \<open>KeyError\<close>, the
  \<open>repr\<close> of its argument.
\<close>

fun exn_str :: "exn \<Rightarrow> string" where
  "exn_str (ClientError code text) = text"
| "exn_str (MetadataLimitExceededError vector_id actual_count max_allowed) =
     ''Vector '' @ [CHR 0x27] @ vector_id @ [CHR 0x27] @ '' has '' @ str_nat actual_count
       @ '' metadata tags, but maximum allowed is '' @ str_int max_allowed"
| "exn_str (TypeError text) = text"
| "exn_str (KeyError text) = repr_str text"
| "exn_str (ValueError text) = text"
| "exn_str (RuntimeError text) = text"
| "exn_str (OtherException text) = text"


section \<open>Vector-store operations (\<open>s3_vector/s3_vector_ops.py\<close>)\<close>

subsection \<open>The service client\<close>

text \<open>
  A metadata argument is a dictionary (its items, in insertion order) or some other
  object, kept as the text of \<open>type(metadata)\<close>.
\<close>

datatype 'm metadata_field = IsDict "(string \<times> 'm) list" | NotDict string


text \<open>The entry \<open>{'key': .., 'data': {'float32': ..}, 'metadata': ..}\<close> sent to the service.\<close>

record ('v, 'm) vector_entry =
  entry_key :: string
  entry_data :: 'v
  entry_metadata :: "'m metadata_field"

text \<open>
  The requests the library sends through the boto3 clients. The service is outside the
  repository: it is a parameter, a function from the calls made so far and the new call
  to the exception raised or the response. A call is made by \<open>api\<close>, which appends it
  to the log of calls, so "no call was made" is "the log did not grow".
\<close>

datatype ('v, 'm) api_call =
    GetCallerIdentity
  | GetVectorBucket string
  | CreateVectorBucket string
  | CreateIndex string string int string "string list"
  | PutVectors string string "('v, 'm) vector_entry list"
  | DeleteVectors string string "string list"
  | DeleteIndex string string
  | DeleteVectorBucket string

datatype response = Done | Account string

type_synonym ('v, 'm) calls = "('v, 'm) api_call list"
type_synonym ('v, 'm) service = "('v, 'm) calls \<Rightarrow> ('v, 'm) api_call \<Rightarrow> exn + response"


subsection \<open>Configuration constants (\<open>simple_demo/config.py\<close>)\<close>




text \<open>\<open>str.lower()\<close> on the ASCII letters of a metric name.\<close>

definition lower_char :: "char \<Rightarrow> char" where
  "lower_char c = (if (65::nat) \<le> of_char c \<and> of_char c \<le> (90::nat)
                   then char_of (of_char c + (32::nat)) else c)"

definition lower :: "string \<Rightarrow> string" where
  "lower s = map lower_char s"

subsection \<open>\<open>validate_metadata_limits\<close>\<close>


subsection \<open>\<open>create_vector_bucket\<close> and \<open>create_vector_index\<close>\<close>





subsection \<open>\<open>ingest_vectors\<close>\<close>







subsection \<open>\<open>delete_vectors\<close>, \<open>delete_index\<close>, \<open>delete_vector_bucket\<close>\<close>




















section \<open>Vector dimensions (\<open>VectorDimensionManager\<close> of \<open>mm_index/validation.py\<close>)\<close>

text \<open>
  Floating-point numbers are kept abstract: \<open>'a\<close> is the type of Python floats,
  \<open>to_float32\<close> is \<open>float(np.float32(x))\<close> (rounding to the nearest 32-bit float) and
  \<open>zero\<close> is \<open>0.0\<close>.
\<close>

record 'a float_ops =
  to_float32 :: "'a \<Rightarrow> 'a"
  zero :: 'a

datatype 'a vector_arg = PyList "'a list" | NdArray "'a list" | OtherType string

record dimension_manager =
  target_dimension :: int

definition VectorConfig_validate :: "int \<Rightarrow> bool" where
  "VectorConfig_validate dimension = (dimension \<in> set [256, 384, 1024])"

definition VectorDimensionManager_init :: "int \<Rightarrow> exn + dimension_manager" where
  "VectorDimensionManager_init target =
     (if \<not> VectorConfig_validate target
      then Inl (ValueError (''Unsupported target dimension: '' @ str_int target
                  @ ''. Must be 256, 384, or 1024.''))
      else Inr \<lparr>target_dimension = target\<rparr>)"

definition ensure_float32 :: "'a float_ops \<Rightarrow> 'a list \<Rightarrow> 'a list" where
  "ensure_float32 ops vector = map (to_float32 ops) vector"

text \<open>The slice \<open>xs[:n]\<close>.\<close>

definition slice_to :: "'a list \<Rightarrow> int \<Rightarrow> 'a list" where
  "slice_to xs n = (if 0 \<le> n then take (nat n) xs else take (length xs - nat (- n)) xs)"

definition validate_and_transform :: "'a float_ops \<Rightarrow> dimension_manager \<Rightarrow> 'a vector_arg
    \<Rightarrow> exn + 'a list" where
  "validate_and_transform ops self vector =
     (case (case vector of
              PyList xs \<Rightarrow> Inr (map (to_float32 ops) xs)
            | NdArray xs \<Rightarrow> Inr (map (to_float32 ops) xs)
            | OtherType ty \<Rightarrow> Inl (ValueError (''Unsupported vector type: '' @ ty))) of
        Inl e \<Rightarrow> Inl e
      | Inr vector_array \<Rightarrow>
          (let original_dimension = int (length vector_array) in
           if original_dimension = target_dimension self
           then Inr (ensure_float32 ops vector_array)
           else if original_dimension > target_dimension self
           then Inr (ensure_float32 ops (slice_to vector_array (target_dimension self)))
           else (let padding_size = target_dimension self - original_dimension in
                 Inr (ensure_float32 ops
                        (vector_array @ replicate (nat padding_size) (to_float32 ops (zero ops)))))))"

text \<open>The elements of a list or array argument.\<close>

definition elements_of :: "'a vector_arg \<Rightarrow> 'a list option" where
  "elements_of vector = (case vector of PyList xs \<Rightarrow> Some xs | NdArray xs \<Rightarrow> Some xs
                         | OtherType ty \<Rightarrow> None)"

text \<open>A stand-in for the rounding, on integers: round down to an even number.\<close>

definition int_ops :: "int float_ops" where
  "int_ops = \<lparr>to_float32 = (\<lambda>x. 2 * (x div 2)), zero = 0\<rparr>"


section \<open>Dealer database generator (\<open>s3_vector/data/generate_dealer_database.py\<close>)\<close>

subsection \<open>JSON-like values and the random source\<close>

datatype json = JStr string | JInt int | JBool bool | JList "json list"
  | JDict "(string \<times> json) list"

text \<open>
  Python's \<open>random\<close> module is a stream of natural numbers and a position in it; each
  draw reads one number. Every outcome of a call is the outcome for some stream, so a
  statement about all streams is a statement about all runs.
\<close>

type_synonym rng = "(nat \<Rightarrow> nat) \<times> nat"

definition draw :: "nat \<Rightarrow> rng \<Rightarrow> nat \<times> rng" where
  "draw k g = (fst g (snd g) mod k, (fst g, Suc (snd g)))"

definition ret :: "'a \<Rightarrow> rng \<Rightarrow> (exn + 'a) \<times> rng" where
  "ret x g = (Inr x, g)"

definition bind :: "(rng \<Rightarrow> (exn + 'a) \<times> rng) \<Rightarrow> ('a \<Rightarrow> rng \<Rightarrow> (exn + 'b) \<times> rng)
    \<Rightarrow> rng \<Rightarrow> (exn + 'b) \<times> rng" where
  "bind m f g = (case m g of (Inl e, g') \<Rightarrow> (Inl e, g') | (Inr x, g') \<Rightarrow> f x g')"

text \<open>\<open>random.choice(xs)\<close>: IndexError on an empty sequence.\<close>

definition random_choice :: "'a list \<Rightarrow> rng \<Rightarrow> (exn + 'a) \<times> rng" where
  "random_choice xs g =
     (if xs = [] then (Inl (OtherException ''IndexError: Cannot choose from an empty sequence''), g)
      else (case draw (length xs) g of (i, g') \<Rightarrow> (Inr (xs ! i), g')))"

text \<open>\<open>random.randint(a, b)\<close>: an integer of \<open>[a, b]\<close>; ValueError on an empty range.\<close>

definition random_randint :: "int \<Rightarrow> int \<Rightarrow> rng \<Rightarrow> (exn + int) \<times> rng" where
  "random_randint a b g =
     (if b < a then (Inl (ValueError ''empty range for randrange()''), g)
      else (case draw (nat (b - a + 1)) g of (d, g') \<Rightarrow> (Inr (a + int d), g')))"

text \<open>\<open>random.random() < 0.3\<close>: one draw decides it.\<close>

definition random_below_03 :: "rng \<Rightarrow> (exn + bool) \<times> rng" where
  "random_below_03 g = (case draw 10 g of (d, g') \<Rightarrow> (Inr (d < 3), g'))"

text \<open>
  \<open>random.sample(population, k)\<close>: \<open>k\<close> elements at distinct positions, in the order
  drawn; ValueError when \<open>k\<close> is negative or larger than the population.
\<close>

fun sample_loop :: "'a list \<Rightarrow> nat \<Rightarrow> rng \<Rightarrow> 'a list \<times> rng" where
  "sample_loop pool 0 g = ([], g)"
| "sample_loop pool (Suc k) g =
     (case draw (length pool) g of
        (i, g') \<Rightarrow> (case sample_loop (take i pool @ drop (Suc i) pool) k g' of
                       (rest, g'') \<Rightarrow> (pool ! i # rest, g'')))"

definition random_sample :: "'a list \<Rightarrow> int \<Rightarrow> rng \<Rightarrow> (exn + 'a list) \<times> rng" where
  "random_sample population k g =
     (if k < 0 \<or> int (length population) < k
      then (Inl (ValueError ''Sample larger than population or is negative''), g)
      else (case sample_loop population (nat k) g of (xs, g') \<Rightarrow> (Inr xs, g')))"

subsection \<open>The reference tables of \<open>DealerDatabaseGenerator.__init__\<close>\<close>

definition regions :: "string list" where
  "regions = [''North'', ''South'', ''East'', ''West'', ''Central'']"

definition cities_North :: "string list" where
  "cities_North =
     [''Detroit, MI'', ''Grand Rapids, MI'', ''Ann Arbor, MI'', ''Lansing, MI'',
      ''Chicago, IL'', ''Springfield, IL'', ''Rockford, IL'', ''Peoria, IL'',
      ''Minneapolis, MN'', ''St. Paul, MN'', ''Duluth, MN'', ''Rochester, MN'',
      ''Milwaukee, WI'', ''Madison, WI'', ''Green Bay, WI'', ''Kenosha, WI'',
      ''Cleveland, OH'', ''Columbus, OH'', ''Cincinnati, OH'', ''Toledo, OH'',
      ''Indianapolis, IN'', ''Fort Wayne, IN'', ''Evansville, IN'', ''South Bend, IN'',
      ''Des Moines, IA'', ''Cedar Rapids, IA'', ''Davenport, IA'', ''Sioux City, IA'']"

definition cities_South :: "string list" where
  "cities_South =
     [''Atlanta, GA'', ''Savannah, GA'', ''Augusta, GA'', ''Columbus, GA'', ''Miami, FL'',
      ''Orlando, FL'', ''Tampa, FL'', ''Jacksonville, FL'', ''Tallahassee, FL'',
      ''Houston, TX'', ''Dallas, TX'', ''Austin, TX'', ''San Antonio, TX'',
      ''Fort Worth, TX'', ''Nashville, TN'', ''Memphis, TN'', ''Knoxville, TN'',
      ''Chattanooga, TN'', ''Charlotte, NC'', ''Raleigh, NC'', ''Greensboro, NC'',
      ''Durham, NC'', ''Charleston, SC'', ''Columbia, SC'', ''Greenville, SC'',
      ''Rock Hill, SC'', ''Birmingham, AL'', ''Montgomery, AL'', ''Mobile, AL'',
      ''Huntsville, AL'', ''New Orleans, LA'', ''Baton Rouge, LA'', ''Shreveport, LA'',
      ''Lafayette, LA'', ''Jackson, MS'', ''Gulfport, MS'', ''Southaven, MS'',
      ''Hattiesburg, MS'', ''Little Rock, AR'', ''Fort Smith, AR'', ''Fayetteville, AR'',
      ''Springdale, AR'']"

definition cities_East :: "string list" where
  "cities_East =
     [''New York, NY'', ''Buffalo, NY'', ''Rochester, NY'', ''Albany, NY'', ''Syracuse, NY'',
      ''Boston, MA'', ''Worcester, MA'', ''Springfield, MA'', ''Cambridge, MA'',
      ''Philadelphia, PA'', ''Pittsburgh, PA'', ''Allentown, PA'', ''Erie, PA'',
      ''Newark, NJ'', ''Jersey City, NJ'', ''Paterson, NJ'', ''Elizabeth, NJ'',
      ''Baltimore, MD'', ''Annapolis, MD'', ''Frederick, MD'', ''Rockville, MD'',
      ''Virginia Beach, VA'', ''Norfolk, VA'', ''Richmond, VA'', ''Newport News, VA'',
      ''Hartford, CT'', ''New Haven, CT'', ''Bridgeport, CT'', ''Stamford, CT'',
      ''Washington, DC'', ''Wilmington, DE'', ''Dover, DE'', ''Newark, DE'',
      ''Providence, RI'', ''Warwick, RI'', ''Cranston, RI'', ''Burlington, VT'',
      ''South Burlington, VT'', ''Rutland, VT'', ''Manchester, NH'', ''Nashua, NH'',
      ''Concord, NH'', ''Portland, ME'', ''Lewiston, ME'', ''Bangor, ME'']"

definition cities_West :: "string list" where
  "cities_West =
     [''Los Angeles, CA'', ''San Francisco, CA'', ''San Diego, CA'', ''Sacramento, CA'',
      ''San Jose, CA'', ''Seattle, WA'', ''Spokane, WA'', ''Tacoma, WA'', ''Vancouver, WA'',
      ''Portland, OR'', ''Eugene, OR'', ''Salem, OR'', ''Gresham, OR'', ''Phoenix, AZ'',
      ''Tucson, AZ'', ''Mesa, AZ'', ''Chandler, AZ'', ''Las Vegas, NV'', ''Reno, NV'',
      ''Henderson, NV'', ''North Las Vegas, NV'', ''Salt Lake City, UT'', ''Provo, UT'',
      ''West Valley City, UT'', ''West Jordan, UT'', ''Grand Junction, CO'', ''Durango, CO'',
      ''Aspen, CO'', ''Vail, CO'', ''Boise, ID'', ''Nampa, ID'', ''Meridian, ID'',
      ''Idaho Falls, ID'', ''Billings, MT'', ''Missoula, MT'', ''Great Falls, MT'',
      ''Bozeman, MT'', ''Cheyenne, WY'', ''Casper, WY'', ''Laramie, WY'', ''Gillette, WY'',
      ''Anchorage, AK'', ''Fairbanks, AK'', ''Juneau, AK'', ''Honolulu, HI'',
      ''Pearl City, HI'', ''Hilo, HI'']"

definition cities_Central :: "string list" where
  "cities_Central =
     [''Denver, CO'', ''Colorado Springs, CO'', ''Aurora, CO'', ''Lakewood, CO'',
      ''Kansas City, MO'', ''St. Louis, MO'', ''Springfield, MO'', ''Columbia, MO'',
      ''Wichita, KS'', ''Overland Park, KS'', ''Kansas City, KS'', ''Topeka, KS'',
      ''Oklahoma City, OK'', ''Tulsa, OK'', ''Norman, OK'', ''Broken Arrow, OK'',
      ''Omaha, NE'', ''Lincoln, NE'', ''Bellevue, NE'', ''Grand Island, NE'',
      ''Albuquerque, NM'', ''Las Cruces, NM'', ''Santa Fe, NM'', ''Rio Rancho, NM'',
      ''Fargo, ND'', ''Bismarck, ND'', ''Grand Forks, ND'', ''Minot, ND'',
      ''Sioux Falls, SD'', ''Rapid City, SD'', ''Aberdeen, SD'', ''Brookings, SD'']"

definition cities :: "(string \<times> string list) list" where
  "cities = [(''North'', cities_North), (''South'', cities_South), (''East'', cities_East), (''West'', cities_West), (''Central'', cities_Central)]"

definition dealer_names :: "string list" where
  "dealer_names =
     [''Premium Auto Service'', ''Honda Service Center'', ''BMW Authorized Dealer'',
      ''Toyota Service Plus'', ''Ford Service Center'', ''Chevrolet Dealership'',
      ''Nissan Service Hub'', ''Mercedes-Benz Center'', ''Audi Service Station'',
      ''Hyundai Service Point'', ''Kia Motors Service'', ''Subaru Service Center'',
      ''Mazda Service Hub'', ''Volkswagen Service'', ''Lexus Service Center'',
      ''Acura Service Point'', ''Infiniti Service Hub'', ''Cadillac Service Center'',
      ''Buick Service Station'', ''GMC Service Hub'', ''Jeep Service Center'',
      ''Ram Service Point'', ''Chrysler Service Hub'', ''Dodge Service Center'',
      ''Lincoln Service Station'', ''Volvo Service Center'', ''Jaguar Service Hub'',
      ''Land Rover Service'', ''Porsche Service Center'', ''Tesla Service Hub'',
      ''Genesis Service Point'', ''Alfa Romeo Service'', ''Maserati Service Center'',
      ''Bentley Service Hub'', ''Rolls-Royce Service'', ''McLaren Service Point'',
      ''Ferrari Service Center'', ''Lamborghini Service'', ''Aston Martin Service'',
      ''Lotus Service Hub'', ''Mini Service Center'', ''Smart Service Point'',
      ''Fiat Service Hub'', ''Mitsubishi Service'', ''Suzuki Service Center'',
      ''Isuzu Service Point'', ''Scion Service Hub'', ''Saturn Service Center'',
      ''Pontiac Service Point'', ''Oldsmobile Service'', ''Mercury Service Hub'']"

definition services :: "string list" where
  "services =
     [''oil_change'', ''brake_service'', ''tire_rotation'', ''general_inspection'',
      ''engine_repair'', ''transmission_service'', ''electrical_diagnosis'',
      ''air_conditioning'', ''battery_replacement'', ''tune_up'']"

definition specialties :: "string list" where
  "specialties =
     [''Luxury Vehicles'', ''Performance Tuning'', ''Service & Maintenance'',
      ''Collision Repair'', ''Paint & Body'', ''Electrical Systems'', ''Hybrid & Electric'',
      ''Diesel Engines'', ''Classic Cars'', ''Commercial Vehicles'', ''Fleet Services'',
      ''Warranty Work'']"

definition appointment_slots :: "string list" where
  "appointment_slots =
     [''09:00'', ''10:30'', ''13:00'', ''14:30'', ''16:00'']"

definition business_hours :: "string list" where
  "business_hours =
     [''Mon-Fri 8AM-6PM, Sat 8AM-4PM'', ''Mon-Fri 7AM-7PM, Sat 8AM-5PM'',
      ''Mon-Fri 8AM-5PM, Sat 9AM-3PM'', ''Mon-Sat 8AM-6PM, Sun 10AM-4PM'',
      ''Mon-Fri 7AM-6PM, Sat 8AM-4PM'']"

definition manufacturers :: "string list list" where
  "manufacturers =
     [[''Honda'', ''Toyota'', ''Nissan''], [''BMW'', ''Mercedes'', ''Audi''],
      [''Ford'', ''Chevrolet'', ''GMC''], [''Hyundai'', ''Kia'', ''Genesis''],
      [''Subaru'', ''Mazda'', ''Volkswagen''], [''Lexus'', ''Acura'', ''Infiniti''],
      [''Cadillac'', ''Buick'', ''Lincoln''], [''Jeep'', ''Ram'', ''Chrysler''],
      [''Volvo'', ''Jaguar'', ''Land Rover''], [''Porsche'', ''Tesla'', ''Mini'']]"

subsection \<open>Helpers of the generator\<close>

text \<open>The format \<open>{index:03d}\<close>: at least three characters, zero-filled after the sign.\<close>

definition zero_fill :: "nat \<Rightarrow> string \<Rightarrow> string" where
  "zero_fill width s = replicate (width - length s) (CHR ''0'') @ s"

definition format_03d :: "int \<Rightarrow> string" where
  "format_03d i = (if i < 0 then CHR ''-'' # zero_fill 2 (str_nat (nat (- i)))
                   else zero_fill 3 (str_nat (nat i)))"

definition generate_dealer_id :: "int \<Rightarrow> string" where
  "generate_dealer_id index = ''DEALER-'' @ format_03d index"

text \<open>\<open>city.split(", ")\<close>, with the piece being read as accumulator.\<close>

fun split_comma_space :: "string \<Rightarrow> string \<Rightarrow> string list" where
  "split_comma_space cur [] = [cur]"
| "split_comma_space cur [c] = [cur @ [c]]"
| "split_comma_space cur (c # d # rest) =
     (if c = CHR '','' \<and> d = CHR '' '' then cur # split_comma_space [] rest
      else split_comma_space (cur @ [c]) (d # rest))"

definition extract_state_from_city :: "string \<Rightarrow> string" where
  "extract_state_from_city city =
     (case split_comma_space [] city of
        a # b # rest \<Rightarrow> b
      | _ \<Rightarrow> ''Unknown'')"

definition extract_city_name :: "string \<Rightarrow> string" where
  "extract_city_name city =
     (case split_comma_space [] city of
        a # b # rest \<Rightarrow> a
      | _ \<Rightarrow> city)"

definition generate_phone_number :: "rng \<Rightarrow> (exn + string) \<times> rng" where
  "generate_phone_number =
     bind (random_choice [''555'', ''312'', ''404'', ''213'', ''617'', ''202'', ''713'', ''214'',
                          ''206'', ''303'']) (\<lambda>area_code.
     bind (random_randint 100 999) (\<lambda>exchange.
     bind (random_randint 1000 9999) (\<lambda>number.
     ret (''('' @ area_code @ '') '' @ str_int exchange @ ''-'' @ str_int number))))"

definition generate_email :: "string \<Rightarrow> rng \<Rightarrow> (exn + string) \<times> rng" where
  "generate_email dealer_name =
     (let clean_name = filter (\<lambda>c. c \<noteq> CHR ''-'') (filter (\<lambda>c. c \<noteq> CHR '' '') (lower dealer_name))
      in bind (random_choice [''gmail.com'', ''dealership.com'', ''autoservice.com'', ''service.com''])
           (\<lambda>domain. ret (''contact@'' @ take 10 clean_name @ ''.'' @ domain)))"

definition generate_address :: "string \<Rightarrow> rng \<Rightarrow> (exn + string) \<times> rng" where
  "generate_address city =
     bind (random_randint 100 9999) (\<lambda>n.
     bind (random_choice [str_int n]) (\<lambda>street_number.
     bind (random_choice [''Auto Lane'', ''Service Blvd'', ''Dealer Drive'', ''Mechanic Way'',
                          ''Repair Road'', ''Motor Ave'', ''Vehicle St'', ''Garage Blvd'',
                          ''Workshop Way'', ''Maintenance Dr'', ''Parts Place'',
                          ''Service Center Dr'']) (\<lambda>street_name.
     ret (street_number @ '' '' @ street_name @ '', '' @ city))))"

text \<open>\<open>self.cities[region]\<close>.\<close>

definition cities_of :: "string \<Rightarrow> rng \<Rightarrow> (exn + string list) \<times> rng" where
  "cities_of region g =
     (case map_of cities region of
        None \<Rightarrow> (Inl (KeyError region), g)
      | Some cs \<Rightarrow> (Inr cs, g))"

subsection \<open>\<open>generate_dealer\<close> and \<open>generate_database\<close>\<close>

definition generate_dealer :: "int \<Rightarrow> rng \<Rightarrow> (exn + json) \<times> rng" where
  "generate_dealer index =
     bind (random_choice regions) (\<lambda>region.
     bind (cities_of region) (\<lambda>region_cities.
     bind (random_choice region_cities) (\<lambda>city.
     bind (random_choice dealer_names) (\<lambda>name0.
     bind random_below_03 (\<lambda>suffix.
     (let dealer_name = (if suffix then name0 @ '' - '' @ region else name0) in
     bind (random_choice manufacturers) (\<lambda>manufacturer_group.
     bind (random_randint 4 8) (\<lambda>n_services.
     bind (random_sample services n_services) (\<lambda>selected_services.
     bind (random_randint 2 4) (\<lambda>n_specialties.
     bind (random_sample specialties n_specialties) (\<lambda>selected_specialties.
     bind (random_choice [True, True, True, False]) (\<lambda>certified.
     bind generate_phone_number (\<lambda>phone.
     bind (generate_address city) (\<lambda>address.
     bind (random_choice business_hours) (\<lambda>hours.
     bind (generate_email dealer_name) (\<lambda>email.
     bind (random_randint 1995 2020) (\<lambda>year_established.
     ret (JDict
       [(''name'', JStr dealer_name),
        (''region'', JStr region),
        (''location'', JStr city),
        (''state'', JStr (extract_state_from_city city)),
        (''city'', JStr (extract_city_name city)),
        (''manufacturer_specialties'', JList (map JStr manufacturer_group)),
        (''services'', JList (map JStr selected_services)),
        (''certified'', JBool certified),
        (''contact'', JDict [(''phone'', JStr phone), (''address'', JStr address),
                             (''hours'', JStr hours), (''email'', JStr email)]),
        (''appointment_slots'', JList (map JStr appointment_slots)),
        (''year_established'', JInt year_established),
        (''specialties'', JList (map JStr selected_specialties))]))))))))))))))))))"

text \<open>\<open>d[k] = v\<close> on a dictionary kept as its items in insertion order.\<close>

fun dict_set :: "('k \<times> 'v) list \<Rightarrow> 'k \<Rightarrow> 'v \<Rightarrow> ('k \<times> 'v) list" where
  "dict_set [] k v = [(k, v)]"
| "dict_set ((k', v') # d) k v = (if k' = k then (k, v) # d else (k', v') # dict_set d k v)"

text \<open>The loop of \<open>generate_database\<close> over the indices still to do.\<close>

fun generate_loop :: "int list \<Rightarrow> (string \<times> json) list \<Rightarrow> rng
    \<Rightarrow> (exn + (string \<times> json) list) \<times> rng" where
  "generate_loop [] database g = (Inr database, g)"
| "generate_loop (i # rest) database g =
     (let dealer_id = generate_dealer_id i in
      case generate_dealer i g of
        (Inl e, g') \<Rightarrow> (Inl e, g')
      | (Inr dealer, g') \<Rightarrow> generate_loop rest (dict_set database dealer_id dealer) g')"

definition generate_database :: "int \<Rightarrow> rng \<Rightarrow> (exn + (string \<times> json) list) \<times> rng" where
  "generate_database count g = generate_loop [1 .. count] [] g"

text \<open>The fields the records are to carry, and the keys of a record.\<close>

definition dealer_fields :: "string list" where
  "dealer_fields = [''name'', ''region'', ''location'', ''state'', ''city'',
     ''manufacturer_specialties'', ''services'', ''certified'', ''contact'',
     ''appointment_slots'', ''year_established'', ''specialties'']"

definition keys_of :: "json \<Rightarrow> string list" where
  "keys_of j = (case j of JDict items \<Rightarrow> map fst items | _ \<Rightarrow> [])"

text \<open>A generator step that returns a value, whatever the random stream, with a property.\<close>

definition returns :: "(rng \<Rightarrow> (exn + 'a) \<times> rng) \<Rightarrow> ('a \<Rightarrow> bool) \<Rightarrow> bool" where
  "returns m P = (\<forall>g. \<exists>x g'. m g = (Inr x, g') \<and> P x)"

text \<open>The number a string of decimal digits stands for.\<close>

definition digits_val :: "string \<Rightarrow> nat" where
  "digits_val s = foldl (\<lambda>a c. 10 * a + (of_char c - 48)) 0 s"

text \<open>The random stream 0, 1, 2, ...\<close>

definition counting_rng :: rng where
  "counting_rng = ((\<lambda>n. n), 0)"


section \<open>Metadata limiting (\<open>MetadataLimiter\<close> of \<open>mm_index/validation.py\<close>)\<close>

subsection \<open>Text, its UTF-8 size, and metadata values\<close>

text \<open>
  A Python \<open>str\<close> is a list of Unicode scalar values; \<open>utf8_len\<close> is
  \<open>len(text.encode('utf-8'))\<close>.
\<close>

type_synonym ustr = "nat list"



text \<open>The code points of an ASCII literal.\<close>

definition ustr_of :: "string \<Rightarrow> ustr" where
  "ustr_of s = map of_char s"

text \<open>
  A metadata value is a \<open>str\<close> or any other object; of the latter only the text that
  \<open>str(value)\<close> gives is kept.
\<close>

datatype pyval = PStr ustr | PObj ustr


type_synonym metadata = "(string \<times> pyval) list"

subsection \<open>\<open>_truncate_to_bytes\<close>\<close>




subsection \<open>\<open>limit_metadata\<close>\<close>

record metadata_limiter =
  max_tags :: nat
  max_value_bytes :: nat
  priority_tags :: "string list"

text \<open>The constructor's default for \<open>priority_tags\<close>, and the default limiter.\<close>

definition default_priority_tags :: "string list" where
  "default_priority_tags = [''damage_id'', ''vehicle_make'', ''vehicle_model'', ''damage_type'',
     ''strategy'', ''severity'', ''estimated_cost'']"

definition MetadataLimiter_default :: metadata_limiter where
  "MetadataLimiter_default =
     \<lparr>max_tags = 10, max_value_bytes = 2048, priority_tags = default_priority_tags\<rparr>"


definition has_key :: "('k \<times> 'v) list \<Rightarrow> 'k \<Rightarrow> bool" where
  "has_key d k = (k \<in> fst ` set d)"

definition ellipsis :: ustr where
  "ellipsis = ustr_of ''...''"
























section \<open>Pattern strategies and the pattern engine (\<open>mm_index/patterns\<close>)\<close>

subsection \<open>Values and the outside world\<close>

text \<open>
  Text helpers: the characters \<open>str.isspace\<close> accepts, \<open>str.strip()\<close>, the number of
  words of \<open>str.split()\<close> and \<open>str.encode('utf-8')\<close>.
\<close>

definition py_isspace :: "nat \<Rightarrow> bool" where
  "py_isspace c = (c \<in> set [9, 10, 11, 12, 13, 28, 29, 30, 31, 32, 133, 160, 5760, 8232, 8233,
                              8239, 8287, 12288] \<or> (8192 \<le> c \<and> c \<le> 8202))"

definition strip :: "ustr \<Rightarrow> ustr" where
  "strip s = rev (dropWhile py_isspace (rev (dropWhile py_isspace s)))"

fun word_count :: "bool \<Rightarrow> ustr \<Rightarrow> nat" where
  "word_count in_word [] = 0"
| "word_count in_word (c # cs) =
     (if py_isspace c then word_count False cs
      else (if in_word then 0 else 1) + word_count True cs)"

definition utf8_encode_cp :: "nat \<Rightarrow> nat list" where
  "utf8_encode_cp cp =
     (if cp < 0x80 then [cp]
      else if cp < 0x800 then [0xC0 + cp div 64, 0x80 + cp mod 64]
      else if cp < 0x10000 then [0xE0 + cp div 4096, 0x80 + (cp div 64) mod 64, 0x80 + cp mod 64]
      else [0xF0 + cp div 262144, 0x80 + (cp div 4096) mod 64, 0x80 + (cp div 64) mod 64,
            0x80 + cp mod 64])"

definition utf8_encode :: "ustr \<Rightarrow> nat list" where
  "utf8_encode s = concat (map utf8_encode_cp s)"

text \<open>
  A value of the \<open>data\<close> dictionary: a \<open>str\<close>, a \<open>bytes\<close>, a PIL image (its format, size
  and mode, and what saving it in that format gives) or something else.
\<close>

datatype pydata =
    DStr ustr
  | DBytes "nat list"
  | DImage "ustr option" "int \<times> int" ustr "exn + nat list"
  | DOther

type_synonym data = "(string \<times> pydata) list"

text \<open>
  A metadata value of the patterns. \<open>MRound3 a b\<close> stands for the floating-point number
  \<open>round(a / b, 3)\<close>, which is not computed.
\<close>

datatype mval =
    MStr ustr
  | MInt int
  | MBool bool
  | MNames "string list"
  | MSize "int \<times> int"
  | MRound3 nat nat

type_synonym pmeta = "(string \<times> mval) list"

text \<open>\<open>str(value)\<close> where a document id is read from the metadata.\<close>

definition mval_str :: "mval \<Rightarrow> ustr" where
  "mval_str v = (case v of
       MStr s \<Rightarrow> s
     | MInt i \<Rightarrow> ustr_of (str_int i)
     | MBool b \<Rightarrow> ustr_of (if b then ''True'' else ''False'')
     | MNames ks \<Rightarrow> ustr_of (repr_keys ks)
     | MSize (w, h) \<Rightarrow> ustr_of (''('' @ str_int w @ '', '' @ str_int h @ '')'')
     | MRound3 a b \<Rightarrow> ustr_of (''round('' @ str_nat a @ ''/'' @ str_nat b @ '', 3)''))"

text \<open>One record handed to the vector store.\<close>

record 'f vector_data =
  vd_id :: ustr
  vd_vector :: "'f list"
  vd_metadata :: pmeta

text \<open>
  The calls that leave the library: the embedding model, the text LLM, the object store,
  the file system and the vector store. As for the vector-store operations, whoever
  answers them is a parameter, a function of the calls made so far and the new call.
  Identifiers (\<open>uuid.uuid4()\<close>) and timestamps (\<open>datetime.utcnow()\<close>) are read from two
  sequences, by position; reading them is not a call.
\<close>

datatype 'f mm_call =
    GenerateEmbeddings ustr
  | GenerateSummary ustr
  | StoreObject ustr "nat list" ustr
  | ReadFile ustr
  | IngestVectors ustr "'f vector_data list"

datatype 'f mm_reply = RText ustr | RFloats "'f list" | RBytes "nat list" | RIngest "int option"

record 'f environment =
  respond :: "'f mm_call list \<Rightarrow> 'f mm_call \<Rightarrow> exn + 'f mm_reply"
  uuid_of :: "nat \<Rightarrow> ustr"
  time_of :: "nat \<Rightarrow> ustr"

record 'f world =
  calls :: "'f mm_call list"
  uuid_count :: nat
  clock_count :: nat

definition uuid4 :: "'f environment \<Rightarrow> 'f world \<Rightarrow> ustr \<times> 'f world" where
  "uuid4 env w = (uuid_of env (uuid_count w), w\<lparr>uuid_count := Suc (uuid_count w)\<rparr>)"

definition utcnow :: "'f environment \<Rightarrow> 'f world \<Rightarrow> ustr \<times> 'f world" where
  "utcnow env w = (time_of env (clock_count w), w\<lparr>clock_count := Suc (clock_count w)\<rparr>)"

definition call :: "'f environment \<Rightarrow> 'f mm_call \<Rightarrow> 'f world
    \<Rightarrow> (exn + 'f mm_reply) \<times> 'f world" where
  "call env c w = (respond env (calls w) c, w\<lparr>calls := calls w @ [c]\<rparr>)"

text \<open>The replies read at the type the caller expects.\<close>

definition generate_embeddings :: "'f environment \<Rightarrow> ustr \<Rightarrow> 'f world
    \<Rightarrow> (exn + 'f list) \<times> 'f world" where
  "generate_embeddings env txt w =
     (case call env (GenerateEmbeddings txt) w of
        (Inr (RFloats xs), w') \<Rightarrow> (Inr xs, w')
      | (Inr other, w') \<Rightarrow> (Inl (TypeError ''embeddings are not a list of floats''), w')
      | (Inl e, w') \<Rightarrow> (Inl e, w'))"

definition generate_summary :: "'f environment \<Rightarrow> ustr \<Rightarrow> 'f world
    \<Rightarrow> (exn + ustr) \<times> 'f world" where
  "generate_summary env txt w =
     (case call env (GenerateSummary txt) w of
        (Inr (RText s), w') \<Rightarrow> (Inr s, w')
      | (Inr other, w') \<Rightarrow> (Inl (TypeError ''summary is not a str''), w')
      | (Inl e, w') \<Rightarrow> (Inl e, w'))"

definition store_object :: "'f environment \<Rightarrow> ustr \<Rightarrow> nat list \<Rightarrow> ustr \<Rightarrow> 'f world
    \<Rightarrow> (exn + ustr) \<times> 'f world" where
  "store_object env key content content_type w =
     (case call env (StoreObject key content content_type) w of
        (Inr (RText uri), w') \<Rightarrow> (Inr uri, w')
      | (Inr other, w') \<Rightarrow> (Inl (TypeError ''object uri is not a str''), w')
      | (Inl e, w') \<Rightarrow> (Inl e, w'))"

definition read_file :: "'f environment \<Rightarrow> ustr \<Rightarrow> 'f world
    \<Rightarrow> (exn + nat list) \<times> 'f world" where
  "read_file env path w =
     (case call env (ReadFile path) w of
        (Inr (RBytes bs), w') \<Rightarrow> (Inr bs, w')
      | (Inr other, w') \<Rightarrow> (Inl (TypeError ''file content is not bytes''), w')
      | (Inl e, w') \<Rightarrow> (Inl e, w'))"

subsection \<open>\<open>PatternStrategy\<close>\<close>

record 'f pattern =
  pattern_name :: string
  get_required_keys :: "string list"
  get_optional_keys :: "string list"
  validate_data :: "data \<Rightarrow> bool"
  process :: "data \<Rightarrow> pmeta option \<Rightarrow> 'f world \<Rightarrow> (exn + 'f list \<times> pmeta) \<times> 'f world"

text \<open>\<open>d.update(other)\<close>.\<close>

definition dict_update :: "('k \<times> 'v) list \<Rightarrow> ('k \<times> 'v) list \<Rightarrow> ('k \<times> 'v) list" where
  "dict_update d other = foldl (\<lambda>acc (k, v). dict_set acc k v) d other"

definition validate_required_keys_of :: "string \<Rightarrow> string list \<Rightarrow> data \<Rightarrow> exn + unit" where
  "validate_required_keys_of name required_keys dat =
     (let missing_keys = filter (\<lambda>key. \<not> has_key dat key) required_keys in
      if missing_keys \<noteq> []
      then Inl (ValueError (''Pattern '' @ [CHR 0x27] @ name @ [CHR 0x27] @ '' requires keys ''
                  @ repr_keys required_keys @ '', but missing: '' @ repr_keys missing_keys))
      else Inr ())"

definition enrich_metadata :: "'f environment \<Rightarrow> string \<Rightarrow> pmeta option \<Rightarrow> pmeta \<Rightarrow> 'f world
    \<Rightarrow> pmeta \<times> 'f world" where
  "enrich_metadata env name base_metadata additional_metadata w =
     (let enriched = (case base_metadata of None \<Rightarrow> [] | Some m \<Rightarrow> m);
          enriched = dict_set enriched ''pattern'' (MStr (ustr_of name))
      in case utcnow env w of
           (now, w') \<Rightarrow>
             (dict_update (dict_set enriched ''processed_at'' (MStr now)) additional_metadata, w'))"

text \<open>\<open>(metadata or {}).get('doc_id', str(uuid.uuid4()))\<close>: the default is computed first.\<close>

definition doc_id_of :: "'f environment \<Rightarrow> pmeta option \<Rightarrow> 'f world \<Rightarrow> ustr \<times> 'f world" where
  "doc_id_of env metadata w =
     (case uuid4 env w of
        (fresh, w') \<Rightarrow>
          (case map_of (case metadata of None \<Rightarrow> [] | Some m \<Rightarrow> m) ''doc_id'' of
             Some v \<Rightarrow> (mval_str v, w')
           | None \<Rightarrow> (fresh, w')))"

subsection \<open>\<open>HybridPattern\<close>\<close>

definition is_valid_image :: "pydata \<Rightarrow> bool" where
  "is_valid_image img = (case img of
       DStr path \<Rightarrow> 0 < length path
     | DImage fmt dims mode saved \<Rightarrow> True
     | DBytes bs \<Rightarrow> 0 < length bs
     | DOther \<Rightarrow> False)"

definition hybrid_validate_data :: "data \<Rightarrow> bool" where
  "hybrid_validate_data dat =
     (case map_of dat ''text'' of
        None \<Rightarrow> False
      | Some (DStr txt) \<Rightarrow>
          (if strip txt = [] then False
           else (case map_of dat ''image'' of
                   None \<Rightarrow> True
                 | Some im \<Rightarrow> is_valid_image im))
      | Some other \<Rightarrow> False)"

text \<open>\<open>image.split('.')[-1] if '.' in image else 'jpg'\<close>.\<close>

definition path_extension :: "ustr \<Rightarrow> ustr" where
  "path_extension path =
     (if 46 \<in> set path then rev (takeWhile (\<lambda>c. c \<noteq> 46) (rev path)) else ustr_of ''jpg'')"

definition lower_ustr :: "ustr \<Rightarrow> ustr" where
  "lower_ustr s = map (\<lambda>c. if 65 \<le> c \<and> c \<le> 90 then c + 32 else c) s"

definition hybrid_process_image :: "'f environment \<Rightarrow> pydata \<Rightarrow> ustr \<Rightarrow> 'f world
    \<Rightarrow> (exn + ustr) \<times> 'f world" where
  "hybrid_process_image env img doc_id w =
     (case (case img of
              DStr path \<Rightarrow>
                (case read_file env path w of
                   (Inl e, w') \<Rightarrow> (Inl e, w')
                 | (Inr bs, w') \<Rightarrow> (Inr (bs, path_extension path), w'))
            | DImage fmt dims mode saved \<Rightarrow>
                (let format_name = (case fmt of None \<Rightarrow> ustr_of ''JPEG''
                                    | Some f \<Rightarrow> if f = [] then ustr_of ''JPEG'' else f)
                 in case saved of
                      Inl e \<Rightarrow> (Inl e, w)
                    | Inr bs \<Rightarrow> (Inr (bs, lower_ustr format_name), w))
            | DBytes bs \<Rightarrow> (Inr (bs, ustr_of ''jpg''), w)
            | DOther \<Rightarrow> (Inl (ValueError ''Unsupported image type''), w)) of
        (Inl e, w') \<Rightarrow> (Inl (RuntimeError (''Image processing failed: '' @ exn_str e)), w')
      | (Inr (image_bytes, extension), w') \<Rightarrow>
          (case store_object env (ustr_of ''images/'' @ doc_id @ ustr_of ''.'' @ extension)
                  image_bytes (ustr_of ''image/'' @ extension) w' of
             (Inl e, w'') \<Rightarrow> (Inl (RuntimeError (''Image processing failed: '' @ exn_str e)), w'')
           | (Inr uri, w'') \<Rightarrow> (Inr uri, w'')))"

text \<open>The \<open>try\<close> block of \<open>HybridPattern.process\<close>, entered once the data is validated.\<close>

definition hybrid_embed :: "'f environment \<Rightarrow> ustr \<Rightarrow> pydata option \<Rightarrow> pmeta option \<Rightarrow> 'f world
    \<Rightarrow> (exn + 'f list \<times> pmeta) \<times> 'f world" where
  "hybrid_embed env txt img metadata w =
     (case generate_embeddings env txt w of
        (Inl e, w1) \<Rightarrow> (Inl e, w1)
      | (Inr embeddings, w1) \<Rightarrow>
          (if embeddings = []
           then (Inl (RuntimeError ''Embedding model returned empty embeddings''), w1)
           else
             (let additional_metadata =
                    [(''text_length'', MInt (int (length txt))),
                     (''text_word_count'', MInt (int (word_count False txt))),
                     (''embedding_dimension'', MInt (int (length embeddings))),
                     (''has_image'', MBool (img \<noteq> None)),
                     (''text_preview'', MStr (if 100 < length txt then take 100 txt @ ellipsis
                                              else txt))]
              in case img of
                   None \<Rightarrow>
                     (case enrich_metadata env ''hybrid'' metadata additional_metadata w1 of
                        (enriched, w2) \<Rightarrow> (Inr (embeddings, enriched), w2))
                 | Some im \<Rightarrow>
                     (case doc_id_of env metadata w1 of
                        (doc_id, w2) \<Rightarrow>
                          (case hybrid_process_image env im doc_id w2 of
                             (Inr image_uri, w3) \<Rightarrow>
                               (let stored = dict_update additional_metadata
                                      ([(''__img_ref'', MStr image_uri), (''image_stored'', MBool True)]
                                       @ (case im of
                                            DImage fmt dims mode saved \<Rightarrow>
                                              [(''image_size'', MSize dims), (''image_mode'', MStr mode)]
                                          | DBytes bs \<Rightarrow> [(''image_bytes'', MInt (int (length bs)))]
                                          | _ \<Rightarrow> []))
                                in case enrich_metadata env ''hybrid'' metadata stored w3 of
                                     (enriched, w4) \<Rightarrow> (Inr (embeddings, enriched), w4))
                           | (Inl e, w3) \<Rightarrow>
                               (let failed = dict_update additional_metadata
                                      [(''image_stored'', MBool False),
                                       (''image_error'', MStr (ustr_of (exn_str e)))]
                                in case enrich_metadata env ''hybrid'' metadata failed w3 of
                                     (enriched, w4) \<Rightarrow> (Inr (embeddings, enriched), w4)))))))"

definition hybrid_process :: "'f environment \<Rightarrow> data \<Rightarrow> pmeta option \<Rightarrow> 'f world
    \<Rightarrow> (exn + 'f list \<times> pmeta) \<times> 'f world" where
  "hybrid_process env dat metadata w =
     (case validate_required_keys_of ''hybrid'' [''text''] dat of
        Inl e \<Rightarrow> (Inl e, w)
      | Inr u \<Rightarrow>
          (if \<not> hybrid_validate_data dat
           then (Inl (ValueError
                   ''Invalid hybrid data: text must be non-empty string, image must be valid if provided''), w)
           else (case map_of dat ''text'' of
                   Some (DStr txt) \<Rightarrow>
                     (case hybrid_embed env txt (map_of dat ''image'') metadata w of
                        (Inl e, w') \<Rightarrow>
                          (Inl (RuntimeError (''Hybrid pattern processing failed: '' @ exn_str e)), w')
                      | (Inr r, w') \<Rightarrow> (Inr r, w'))
                 | _ \<Rightarrow> (Inl (KeyError ''text''), w))))"

definition HybridPattern :: "'f environment \<Rightarrow> 'f pattern" where
  "HybridPattern env =
     \<lparr>pattern_name = ''hybrid'', get_required_keys = [''text''], get_optional_keys = [''image''],
      validate_data = hybrid_validate_data, process = hybrid_process env\<rparr>"

subsection \<open>\<open>SummarizePattern\<close>\<close>

text \<open>
  The pattern's own fields: the smallest text length it accepts and whether it was
  given a text LLM (\<open>if not self.llm\<close>).
\<close>

record summarize_config =
  min_text_length :: int
  has_llm :: bool

definition summarize_validate_data :: "summarize_config \<Rightarrow> data \<Rightarrow> bool" where
  "summarize_validate_data self dat =
     (case map_of dat ''text'' of
        None \<Rightarrow> False
      | Some (DStr txt) \<Rightarrow>
          (if strip txt = [] then False
           else if int (length txt) < min_text_length self then False
           else if \<not> has_llm self then False
           else True)
      | Some other \<Rightarrow> False)"

definition store_original_text :: "'f environment \<Rightarrow> ustr \<Rightarrow> ustr \<Rightarrow> 'f world
    \<Rightarrow> (exn + ustr) \<times> 'f world" where
  "store_original_text env txt doc_id w =
     (case store_object env (ustr_of ''original_texts/'' @ doc_id @ ustr_of ''.txt'')
             (utf8_encode txt) (ustr_of ''text/plain'') w of
        (Inl e, w') \<Rightarrow> (Inl (RuntimeError (''Text storage failed: '' @ exn_str e)), w')
      | (Inr uri, w') \<Rightarrow> (Inr uri, w'))"

text \<open>
  The \<open>try\<close> block of \<open>SummarizePattern.process\<close>. A \<open>text\<close> that is no \<open>str\<close> is not
  passed on to the LLM here: the call is typed for a \<open>str\<close>.
\<close>

definition summarize_body :: "'f environment \<Rightarrow> data \<Rightarrow> pmeta \<Rightarrow> 'f world
    \<Rightarrow> (exn + 'f list \<times> pmeta) \<times> 'f world" where
  "summarize_body env dat metadata w =
     (case map_of dat ''text'' of
        None \<Rightarrow> (Inl (KeyError ''text''), w)
      | Some (DStr txt) \<Rightarrow>
          (case generate_summary env txt w of
             (Inl e, w1) \<Rightarrow> (Inl e, w1)
           | (Inr summary, w1) \<Rightarrow>
               (if summary = [] \<or> strip summary = []
                then (Inl (RuntimeError ''Generated summary is empty''), w1)
                else
                  (case generate_embeddings env summary w1 of
                     (Inl e, w2) \<Rightarrow> (Inl e, w2)
                   | (Inr embeddings, w2) \<Rightarrow>
                       (case doc_id_of env (Some metadata) w2 of
                          (doc_id, w3) \<Rightarrow>
                            (if txt = []
                             then (Inl (OtherException ''division by zero''), w3)
                             else
                               (let enriched_metadata = dict_update metadata
                                      [(''pattern'', MStr (ustr_of ''summarize'')),
                                       (''summary'', MStr summary),
                                       (''summary_length'', MInt (int (length summary))),
                                       (''original_text_length'', MInt (int (length txt))),
                                       (''compression_ratio'', MRound3 (length summary) (length txt)),
                                       (''processing_type'', MStr (ustr_of ''text_summarization''))]
                                in case store_original_text env txt doc_id w3 of
                                     (Inr text_uri, w4) \<Rightarrow>
                                       (Inr (embeddings,
                                             dict_update enriched_metadata
                                               [(''__text_ref'', MStr text_uri),
                                                (''original_text_stored'', MBool True)]), w4)
                                   | (Inl e, w4) \<Rightarrow>
                                       (Inr (embeddings,
                                             dict_update enriched_metadata
                                               [(''original_text_stored'', MBool False),
                                                (''text_storage_error'', MStr (ustr_of (exn_str e)))]),
                                        w4)))))))
      | Some other \<Rightarrow> (Inl (TypeError ''text is not a str''), w))"

definition summarize_process :: "'f environment \<Rightarrow> data \<Rightarrow> pmeta option \<Rightarrow> 'f world
    \<Rightarrow> (exn + 'f list \<times> pmeta) \<times> 'f world" where
  "summarize_process env dat metadata w =
     (case summarize_body env dat (case metadata of None \<Rightarrow> [] | Some m \<Rightarrow> m) w of
        (Inl e, w') \<Rightarrow>
          (Inl (RuntimeError (''Summarize pattern processing failed: '' @ exn_str e)), w')
      | (Inr r, w') \<Rightarrow> (Inr r, w'))"

definition SummarizePattern :: "'f environment \<Rightarrow> summarize_config \<Rightarrow> 'f pattern" where
  "SummarizePattern env self =
     \<lparr>pattern_name = ''summarize'', get_required_keys = [''text''], get_optional_keys = [],
      validate_data = summarize_validate_data self, process = summarize_process env\<rparr>"

text \<open>The pattern as the engine builds it: \<open>min_text_length\<close> is left at its default.\<close>

definition default_summarize :: summarize_config where
  "default_summarize = \<lparr>min_text_length = 1000, has_llm = True\<rparr>"

subsection \<open>\<open>PatternEngine\<close>\<close>

text \<open>The registry \<open>self.patterns\<close>, a dictionary from names to strategies.\<close>

type_synonym 'f registry = "(string \<times> 'f pattern) list"

definition register_pattern :: "'f registry \<Rightarrow> 'f pattern \<Rightarrow> 'f registry" where
  "register_pattern patterns p = dict_set patterns (pattern_name p) p"

definition get_pattern :: "'f registry \<Rightarrow> string \<Rightarrow> exn + 'f pattern" where
  "get_pattern patterns name =
     (case map_of patterns name of
        None \<Rightarrow> Inl (KeyError (''Pattern '' @ [CHR 0x27] @ name @ [CHR 0x27]
                        @ '' not found. Available patterns: '' @ repr_keys (map fst patterns)))
      | Some p \<Rightarrow> Inr p)"

definition PatternEngine_process :: "'f registry \<Rightarrow> data \<Rightarrow> string \<Rightarrow> pmeta option \<Rightarrow> 'f world
    \<Rightarrow> (exn + 'f list \<times> pmeta) \<times> 'f world" where
  "PatternEngine_process patterns dat name metadata w =
     (case get_pattern patterns name of
        Inl e \<Rightarrow> (Inl e, w)
      | Inr p \<Rightarrow>
          (if \<not> validate_data p dat
           then (Inl (ValueError (''Data validation failed for pattern '' @ [CHR 0x27] @ name
                        @ [CHR 0x27] @ ''. Required keys: '' @ repr_keys (get_required_keys p)
                        @ '', Optional keys: '' @ repr_keys (get_optional_keys p))), w)
           else (case process p dat metadata w of
                   (Inl e, w') \<Rightarrow>
                     (Inl (RuntimeError (''Pattern processing failed: '' @ exn_str e)), w')
                 | (Inr (embeddings, enriched_metadata), w') \<Rightarrow>
                     (Inr (embeddings,
                           dict_set (dict_set enriched_metadata ''engine_version''
                                       (MStr (ustr_of ''1.0'')))
                             ''available_patterns'' (MNames (map fst patterns))), w'))))"

text \<open>An environment in which every call fails, a fresh world, and two inputs.\<close>

definition offline :: "nat environment" where
  "offline = \<lparr>respond = (\<lambda>h c. Inl (OtherException ''offline'')),
              uuid_of = (\<lambda>n. ustr_of ''id-'' @ ustr_of (str_nat n)),
              time_of = (\<lambda>n. ustr_of (str_nat n))\<rparr>"

definition fresh_world :: "nat world" where
  "fresh_world = \<lparr>calls = [], uuid_count = 0, clock_count = 0\<rparr>"

definition image_only :: data where
  "image_only = [(''image'', DBytes [255, 216, 255])]"

definition short_text :: data where
  "short_text = [(''text'', DStr (ustr_of ''too short to summarize''))]"

definition demo_registry :: "nat registry" where
  "demo_registry = register_pattern (register_pattern [] (HybridPattern offline))
                     (SummarizePattern offline default_summarize)"


section \<open>Theorems\<close>

subsection \<open>Decimal rendering\<close>

lemma str_nat_10: "str_nat 10 = ''10''"
  by (simp add: str_nat.simps digit_char_def)


subsection \<open>Metadata limits are checked before any request is sent\<close>





subsection \<open>Bucket and index lifecycle\<close>









subsection \<open>Service errors\<close>




subsection \<open>Vector dimensions\<close>

text \<open>
  C2. For a manager built with a valid target dimension \<open>D\<close> (256, 384 or 1024) and a
  list or array of length \<open>L\<close>, \<open>validate_and_transform\<close> returns a vector of length
  exactly \<open>D\<close>: the first \<open>D\<close> elements when \<open>L > D\<close>, the elements followed by
  \<open>D - L\<close> zeros when \<open>L < D\<close>, and every element of the result is a value of the
  cast to 32-bit precision.
\<close>

theorem validate_and_transform_dimension:
  assumes "VectorDimensionManager_init D = Inr self" and "elements_of vector = Some xs"
  shows "\<exists>ys. validate_and_transform ops self vector = Inr ys
           \<and> length ys = nat D
           \<and> (int (length xs) > D \<longrightarrow> ys = map (to_float32 ops \<circ> to_float32 ops) (take (nat D) xs))
           \<and> (int (length xs) < D \<longrightarrow>
                 ys = map (to_float32 ops \<circ> to_float32 ops) xs
                      @ replicate (nat D - length xs) (to_float32 ops (to_float32 ops (zero ops))))
           \<and> (int (length xs) = D \<longrightarrow> ys = map (to_float32 ops \<circ> to_float32 ops) xs)
           \<and> (\<forall>y \<in> set ys. \<exists>x. y = to_float32 ops x)"
proof -
  from assms(1) have D: "D \<in> {256, 384, 1024}" and self: "target_dimension self = D"
    by (auto simp: VectorDimensionManager_init_def VectorConfig_validate_def split: if_splits)
  then have pos: "0 \<le> D" by auto
  from assms(2) have arr: "(case vector of
              PyList xs \<Rightarrow> Inr (map (to_float32 ops) xs)
            | NdArray xs \<Rightarrow> Inr (map (to_float32 ops) xs)
            | OtherType ty \<Rightarrow> Inl (ValueError (''Unsupported vector type: '' @ ty)))
          = Inr (map (to_float32 ops) xs)"
    by (auto simp: elements_of_def split: vector_arg.splits)
  consider (eq) "int (length xs) = D" | (gt) "int (length xs) > D" | (lt) "int (length xs) < D"
    by linarith
  then show ?thesis
  proof cases
    case eq
    then show ?thesis
      by (auto simp: validate_and_transform_def arr self ensure_float32_def)
  next
    case gt
    with pos show ?thesis
      by (auto simp: validate_and_transform_def arr self ensure_float32_def slice_to_def
          take_map)
  next
    case lt
    with pos show ?thesis
      by (auto simp: validate_and_transform_def arr self ensure_float32_def Let_def
          nat_diff_distrib)
  qed
qed

theorem validate_and_transform_dimension_witness:
  "VectorDimensionManager_init 256 = Inr \<lparr>target_dimension = 256\<rparr>
   \<and> elements_of (PyList (replicate 300 (7::int))) = Some (replicate 300 7)
   \<and> validate_and_transform int_ops \<lparr>target_dimension = 256\<rparr> (PyList (replicate 300 7))
       = Inr (replicate 256 6)
   \<and> elements_of (NdArray [3, 5::int]) = Some [3, 5]
   \<and> validate_and_transform int_ops \<lparr>target_dimension = 256\<rparr> (NdArray [3, 5])
       = Inr ([2, 4] @ replicate 254 0)"
proof -
  have i: "VectorDimensionManager_init 256 = Inr \<lparr>target_dimension = 256\<rparr>"
    by (simp add: VectorDimensionManager_init_def VectorConfig_validate_def)
  have e1: "elements_of (PyList (replicate 300 (7::int))) = Some (replicate 300 7)"
    and e2: "elements_of (NdArray [3, 5::int]) = Some [3, 5]"
    by (simp_all add: elements_of_def)
  from validate_and_transform_dimension [OF i e1, of int_ops]
  have r1: "validate_and_transform int_ops \<lparr>target_dimension = 256\<rparr> (PyList (replicate 300 7))
       = Inr (replicate 256 6)"
    by (auto simp: int_ops_def)
  from validate_and_transform_dimension [OF i e2, of int_ops]
  have r2: "validate_and_transform int_ops \<lparr>target_dimension = 256\<rparr> (NdArray [3, 5])
       = Inr ([2, 4] @ replicate 254 0)"
    by (auto simp: int_ops_def)
  from i e1 e2 r1 r2 show ?thesis by simp
qed

subsection \<open>Dealer database generator\<close>

lemma returns_ret: "P x \<Longrightarrow> returns (ret x) P"
  by (simp add: returns_def ret_def)

lemma returns_bind:
  assumes "returns m P" and "\<And>x. P x \<Longrightarrow> returns (f x) Q"
  shows "returns (bind m f) Q"
  unfolding returns_def
proof
  fix g
  from assms(1) obtain x g' where m: "m g = (Inr x, g')" and "P x"
    unfolding returns_def by blast
  from assms(2) [OF \<open>P x\<close>] obtain y g'' where "f x g' = (Inr y, g'')" and "Q y"
    unfolding returns_def by blast
  with m show "\<exists>y g''. bind m f g = (Inr y, g'') \<and> Q y"
    by (simp add: bind_def)
qed

lemma returns_weaken: "returns m P \<Longrightarrow> (\<And>x. P x \<Longrightarrow> Q x) \<Longrightarrow> returns m Q"
  unfolding returns_def by blast

lemma returns_choice: "xs \<noteq> [] \<Longrightarrow> returns (random_choice xs) (\<lambda>x. x \<in> set xs)"
  by (auto simp: returns_def random_choice_def draw_def)

lemma returns_randint: "a \<le> b \<Longrightarrow> returns (random_randint a b) (\<lambda>x. a \<le> x \<and> x \<le> b)"
proof -
  assume ab: "a \<le> b"
  have "int (n mod nat (b - a + 1)) \<le> b - a" for n
  proof -
    from ab have "0 < nat (b - a + 1)" by simp
    then have "n mod nat (b - a + 1) < nat (b - a + 1)" by (rule mod_less_divisor)
    with ab show ?thesis by linarith
  qed
  with ab show ?thesis
    by (auto simp: returns_def random_randint_def draw_def) (smt (verit))
qed

lemma returns_below: "returns random_below_03 (\<lambda>b. True)"
  by (simp add: returns_def random_below_03_def draw_def)

lemma returns_sample:
  "0 \<le> k \<Longrightarrow> k \<le> int (length xs) \<Longrightarrow> returns (random_sample xs k) (\<lambda>ys. True)"
  by (auto simp: returns_def random_sample_def split: prod.splits)

lemma returns_cities_of:
  "region \<in> set regions \<Longrightarrow> returns (cities_of region) (\<lambda>cs. cs \<noteq> [])"
  by (auto simp: returns_def cities_of_def regions_def cities_def cities_North_def
      cities_South_def cities_East_def cities_West_def cities_Central_def)

lemma returns_phone: "returns generate_phone_number (\<lambda>p. True)"
  unfolding generate_phone_number_def
  by (intro returns_bind [OF returns_choice] returns_bind [OF returns_randint] returns_ret)
    simp_all

lemma returns_address: "returns (generate_address city) (\<lambda>a. True)"
  unfolding generate_address_def
  by (intro returns_bind [OF returns_choice] returns_bind [OF returns_randint] returns_ret)
    simp_all

lemma returns_email: "returns (generate_email dealer_name) (\<lambda>e. True)"
  unfolding generate_email_def Let_def
  by (intro returns_bind [OF returns_choice] returns_ret) simp_all

lemma table_sizes:
  "regions \<noteq> []" "dealer_names \<noteq> []" "manufacturers \<noteq> []" "business_hours \<noteq> []"
  "length services = 10" "length specialties = 12"
  by (simp_all add: regions_def dealer_names_def manufacturers_def business_hours_def
      services_def specialties_def)

lemma returns_generate_dealer:
  "returns (generate_dealer index) (\<lambda>dealer. keys_of dealer = dealer_fields)"
  unfolding generate_dealer_def Let_def
  apply (rule returns_bind [OF returns_choice [OF table_sizes(1)]])
  apply (rule returns_bind [OF returns_cities_of], assumption)
  apply (rule returns_bind [OF returns_choice], assumption)
  apply (rule returns_bind [OF returns_choice [OF table_sizes(2)]])
  apply (rule returns_bind [OF returns_below])
  apply (rule returns_bind [OF returns_choice [OF table_sizes(3)]])
  apply (rule returns_bind [OF returns_randint [of 4 8]], simp)
  apply (rule returns_bind [OF returns_sample], simp, simp add: table_sizes)
  apply (rule returns_bind [OF returns_randint [of 2 4]], simp)
  apply (rule returns_bind [OF returns_sample], simp, simp add: table_sizes)
  apply (rule returns_bind [OF returns_choice], simp)
  apply (rule returns_bind [OF returns_phone])
  apply (rule returns_bind [OF returns_address])
  apply (rule returns_bind [OF returns_choice [OF table_sizes(4)]])
  apply (rule returns_bind [OF returns_email])
  apply (rule returns_bind [OF returns_randint [of 1995 2020]], simp)
  apply (rule returns_ret)
  apply (simp add: keys_of_def dealer_fields_def)
  done

lemma digit_char_val: "d < 10 \<Longrightarrow> of_char (digit_char d) = (48::nat) + d"
proof -
  assume "d < 10"
  then have "d \<in> {0, 1, 2, 3, 4, 5, 6, 7, 8, 9}" by auto
  then show ?thesis by (auto simp: digit_char_def)
qed

lemma digits_val_snoc: "digits_val (s @ [c]) = 10 * digits_val s + (of_char c - 48)"
  by (simp add: digits_val_def)

lemma digits_val_str_nat: "digits_val (str_nat n) = n"
proof (induction n rule: str_nat.induct)
  case (1 n)
  show ?case
  proof (cases "n < 10")
    case True
    then show ?thesis
      by (subst str_nat.simps) (simp add: digits_val_def digit_char_val)
  next
    case False
    with 1 have "digits_val (str_nat (n div 10)) = n div 10" by simp
    with False show ?thesis
      by (subst str_nat.simps) (simp add: digits_val_snoc digit_char_val)
  qed
qed

lemma digits_val_zeros: "digits_val (replicate k (CHR ''0'') @ s) = digits_val s"
proof -
  have "foldl (\<lambda>a c. 10 * a + (of_char c - 48)) 0 (replicate k (CHR ''0'')) = (0::nat)"
    by (induction k) simp_all
  then show ?thesis by (simp add: digits_val_def)
qed

lemma generate_dealer_id_inj:
  assumes "0 \<le> i" and "0 \<le> j" and "generate_dealer_id i = generate_dealer_id j"
  shows "i = j"
proof -
  from assms have "zero_fill 3 (str_nat (nat i)) = zero_fill 3 (str_nat (nat j))"
    by (simp add: generate_dealer_id_def format_03d_def)
  then have "digits_val (zero_fill 3 (str_nat (nat i))) = digits_val (zero_fill 3 (str_nat (nat j)))"
    by simp
  then have "nat i = nat j"
    by (simp add: zero_fill_def digits_val_zeros digits_val_str_nat)
  with assms show ?thesis by simp
qed

lemma dict_set_new: "k \<notin> fst ` set d \<Longrightarrow> dict_set d k v = d @ [(k, v)]"
  by (induction d) auto

lemma generate_loop_keys:
  assumes "\<forall>i \<in> set ids. 0 \<le> i" and "distinct ids"
    and "\<forall>i \<in> set ids. generate_dealer_id i \<notin> fst ` set database"
    and "\<forall>(k, d) \<in> set database. keys_of d = dealer_fields"
  shows "\<exists>db g'. generate_loop ids database g = (Inr db, g')
           \<and> map fst db = map fst database @ map generate_dealer_id ids
           \<and> (\<forall>(k, d) \<in> set db. keys_of d = dealer_fields)"
  using assms
proof (induction ids arbitrary: database g)
  case Nil
  then show ?case by simp
next
  case (Cons i rest)
  from returns_generate_dealer [of i] obtain dealer g1 where
    gd: "generate_dealer i g = (Inr dealer, g1)" and keys: "keys_of dealer = dealer_fields"
    unfolding returns_def by blast
  let ?db1 = "database @ [(generate_dealer_id i, dealer)]"
  from Cons.prems(3) have set1: "dict_set database (generate_dealer_id i) dealer = ?db1"
    by (simp add: dict_set_new)
  have fresh: "\<forall>j \<in> set rest. generate_dealer_id j \<notin> fst ` set ?db1"
  proof
    fix j assume j: "j \<in> set rest"
    with Cons.prems(1,2) have "0 \<le> i" "0 \<le> j" "i \<noteq> j" by auto
    then have "generate_dealer_id j \<noteq> generate_dealer_id i"
      using generate_dealer_id_inj by blast
    with Cons.prems(3) j show "generate_dealer_id j \<notin> fst ` set ?db1" by auto
  qed
  have vals: "\<forall>(k, d) \<in> set ?db1. keys_of d = dealer_fields"
    using Cons.prems(4) keys by auto
  from Cons.prems(1,2) have "\<forall>i \<in> set rest. 0 \<le> i" "distinct rest" by auto
  from Cons.IH [OF this fresh vals, of g1] obtain db g' where
    "generate_loop rest ?db1 g1 = (Inr db, g')"
    "map fst db = map fst ?db1 @ map generate_dealer_id rest"
    "\<forall>(k, d) \<in> set db. keys_of d = dealer_fields" by blast
  with gd set1 show ?case by (simp add: Let_def)
qed

text \<open>
  C8. For every requested count (in particular every \<open>N \<ge> 1\<close>) and every run of the
  random source, \<open>generate_database\<close> returns a dictionary whose keys are, in order,
  \<open>DEALER-001\<close> ... \<open>DEALER-{N:03d}\<close>, all different, so exactly \<open>N\<close> records, and every
  record is a dictionary with exactly the twelve fields name, region, location, state,
  city, manufacturer_specialties, services, certified, contact, appointment_slots,
  year_established and specialties.
\<close>

theorem generate_database_records:
  "\<exists>db g'. generate_database count g = (Inr db, g')
     \<and> map fst db = map generate_dealer_id [1 .. count]
     \<and> distinct (map fst db)
     \<and> length db = nat count
     \<and> (\<forall>(k, d) \<in> set db. keys_of d = dealer_fields)"
proof -
  have pos: "\<forall>i \<in> set [1 .. count]. 0 \<le> i" by auto
  from generate_loop_keys [OF pos, of "[]" g] obtain db g' where
    run: "generate_loop [1 .. count] [] g = (Inr db, g')"
    and keys: "map fst db = map generate_dealer_id [1 .. count]"
    and vals: "\<forall>(k, d) \<in> set db. keys_of d = dealer_fields"
    by auto
  have "inj_on generate_dealer_id (set [1 .. count])"
  proof (rule inj_onI)
    fix x y assume "x \<in> set [1 .. count]" "y \<in> set [1 .. count]"
      and "generate_dealer_id x = generate_dealer_id y"
    then show "x = y" using generate_dealer_id_inj [of x y] by simp
  qed
  then have d: "distinct (map generate_dealer_id [1 .. count])"
    by (simp add: distinct_map)
  from keys have "length db = length [1 .. count]"
    by (metis length_map)
  then have len: "length db = nat count" by simp
  from run keys vals d len show ?thesis
    by (auto simp: generate_database_def)
qed

theorem generate_database_records_witness:
  "map fst (case fst (generate_database 3 counting_rng) of Inr db \<Rightarrow> db | Inl e \<Rightarrow> [])
     = [''DEALER-001'', ''DEALER-002'', ''DEALER-003'']
   \<and> list_all (\<lambda>(k, d). keys_of d = dealer_fields)
        (case fst (generate_database 3 counting_rng) of Inr db \<Rightarrow> db | Inl e \<Rightarrow> [])"
proof -
  have ids: "map generate_dealer_id [1 .. 3] = [''DEALER-001'', ''DEALER-002'', ''DEALER-003'']"
    by (simp add: upto.simps generate_dealer_id_def format_03d_def zero_fill_def
        str_nat.simps digit_char_def numeral_2_eq_2)
  from generate_database_records [of 3 counting_rng] ids show ?thesis
    by (auto simp: list_all_iff)
qed

subsection \<open>Truncation to a byte budget\<close>







subsection \<open>Dictionaries as item lists\<close>



lemma map_of_dict_set: "map_of (dict_set d k v) = (map_of d)(k \<mapsto> v)"
  by (induction d) auto


lemma has_key_map_of: "has_key d k \<longleftrightarrow> (\<exists>v. map_of d k = Some v)"
  by (metis has_key_def map_of_eq_None_iff not_Some_eq)



subsection \<open>One tag\<close>


subsection \<open>The two loops\<close>













subsection \<open>Running the limiter on its own output\<close>

























subsection \<open>Validation comes before any call\<close>

lemma engine_rejects:
  assumes "map_of patterns name = Some p" and "\<not> validate_data p dat"
  shows "PatternEngine_process patterns dat name metadata w
           = (Inl (ValueError (''Data validation failed for pattern '' @ [CHR 0x27] @ name
                     @ [CHR 0x27] @ ''. Required keys: '' @ repr_keys (get_required_keys p)
                     @ '', Optional keys: '' @ repr_keys (get_optional_keys p))), w)"
  using assms by (simp add: PatternEngine_process_def get_pattern_def)

lemma hybrid_without_text:
  assumes "\<not> has_key dat ''text''"
  shows "\<not> hybrid_validate_data dat"
    and "hybrid_process env dat metadata w
           = (Inl (ValueError (''Pattern '' @ [CHR 0x27] @ ''hybrid'' @ [CHR 0x27]
                     @ '' requires keys '' @ repr_keys [''text''] @ '', but missing: ''
                     @ repr_keys [''text''])), w)"
proof -
  from assms have "map_of dat ''text'' = None"
    using has_key_map_of [of dat "''text''"] by (cases "map_of dat ''text''") auto
  then show "\<not> hybrid_validate_data dat" by (simp add: hybrid_validate_data_def)
  from assms show "hybrid_process env dat metadata w
           = (Inl (ValueError (''Pattern '' @ [CHR 0x27] @ ''hybrid'' @ [CHR 0x27]
                     @ '' requires keys '' @ repr_keys [''text''] @ '', but missing: ''
                     @ repr_keys [''text''])), w)"
    by (simp add: hybrid_process_def validate_required_keys_of_def Let_def)
qed

lemma summarize_short_text:
  assumes "map_of dat ''text'' = Some (DStr tx)" and "length tx < 1000"
  shows "\<not> summarize_validate_data default_summarize dat"
  using assms by (simp add: summarize_validate_data_def default_summarize_def)

text \<open>
  C6. Without a \<open>text\<close> key, \<open>HybridPattern.process\<close> raises a \<open>ValueError\<close> and the engine,
  asked for \<open>hybrid\<close>, raises its own, the world of calls being returned as it was: no
  embedding-model or object-store call has been made. A text of fewer than 1000
  characters is rejected by \<open>SummarizePattern.validate_data\<close>, a function that makes no
  call, and the engine raises for it with no call made. For every registered pattern
  whose \<open>validate_data\<close> fails, \<open>PatternEngine.process\<close> raises the \<open>ValueError\<close> that names
  the pattern's required and optional keys, leaves the world as it was, and does so
  whatever the pattern's \<open>process\<close> method is.
\<close>

theorem validation_before_calls:
  "(\<not> has_key dat ''text'' \<longrightarrow>
      hybrid_process env dat metadata w
        = (Inl (ValueError (''Pattern '' @ [CHR 0x27] @ ''hybrid'' @ [CHR 0x27]
                  @ '' requires keys '' @ repr_keys [''text''] @ '', but missing: ''
                  @ repr_keys [''text''])), w)
      \<and> (map_of patterns ''hybrid'' = Some (HybridPattern env) \<longrightarrow>
           PatternEngine_process patterns dat ''hybrid'' metadata w
             = (Inl (ValueError (''Data validation failed for pattern '' @ [CHR 0x27] @ ''hybrid''
                       @ [CHR 0x27] @ ''. Required keys: '' @ repr_keys [''text'']
                       @ '', Optional keys: '' @ repr_keys [''image''])), w)))
   \<and> (map_of dat ''text'' = Some (DStr tx) \<and> length tx < 1000 \<longrightarrow>
        \<not> summarize_validate_data default_summarize dat
        \<and> (map_of patterns ''summarize'' = Some (SummarizePattern env default_summarize) \<longrightarrow>
             PatternEngine_process patterns dat ''summarize'' metadata w
               = (Inl (ValueError (''Data validation failed for pattern '' @ [CHR 0x27]
                         @ ''summarize'' @ [CHR 0x27] @ ''. Required keys: '' @ repr_keys [''text'']
                         @ '', Optional keys: '' @ repr_keys [])), w)))
   \<and> (map_of patterns name = Some p \<and> \<not> validate_data p dat \<longrightarrow>
        (\<forall>f. PatternEngine_process (dict_set patterns name (p\<lparr>process := f\<rparr>)) dat name metadata w
               = (Inl (ValueError (''Data validation failed for pattern '' @ [CHR 0x27] @ name
                         @ [CHR 0x27] @ ''. Required keys: '' @ repr_keys (get_required_keys p)
                         @ '', Optional keys: '' @ repr_keys (get_optional_keys p))), w)))"
proof (intro conjI impI allI)
  assume a: "\<not> has_key dat ''text''"
  from hybrid_without_text(2) [OF a]
  show "hybrid_process env dat metadata w
        = (Inl (ValueError (''Pattern '' @ [CHR 0x27] @ ''hybrid'' @ [CHR 0x27]
                  @ '' requires keys '' @ repr_keys [''text''] @ '', but missing: ''
                  @ repr_keys [''text''])), w)" .
  assume r: "map_of patterns ''hybrid'' = Some (HybridPattern env)"
  have "\<not> validate_data (HybridPattern env) dat"
    using hybrid_without_text(1) [OF a] by (simp add: HybridPattern_def)
  from engine_rejects [OF r this, of metadata w]
  show "PatternEngine_process patterns dat ''hybrid'' metadata w
             = (Inl (ValueError (''Data validation failed for pattern '' @ [CHR 0x27] @ ''hybrid''
                       @ [CHR 0x27] @ ''. Required keys: '' @ repr_keys [''text'']
                       @ '', Optional keys: '' @ repr_keys [''image''])), w)"
    by (simp add: HybridPattern_def)
next
  assume a: "map_of dat ''text'' = Some (DStr tx) \<and> length tx < 1000"
  then show v: "\<not> summarize_validate_data default_summarize dat"
    using summarize_short_text by blast
  assume r: "map_of patterns ''summarize'' = Some (SummarizePattern env default_summarize)"
  have "\<not> validate_data (SummarizePattern env default_summarize) dat"
    using v by (simp add: SummarizePattern_def)
  from engine_rejects [OF r this, of metadata w]
  show "PatternEngine_process patterns dat ''summarize'' metadata w
               = (Inl (ValueError (''Data validation failed for pattern '' @ [CHR 0x27]
                         @ ''summarize'' @ [CHR 0x27] @ ''. Required keys: '' @ repr_keys [''text'']
                         @ '', Optional keys: '' @ repr_keys [])), w)"
    by (simp add: SummarizePattern_def)
next
  fix f
  assume a: "map_of patterns name = Some p \<and> \<not> validate_data p dat"
  have r: "map_of (dict_set patterns name (p\<lparr>process := f\<rparr>)) name = Some (p\<lparr>process := f\<rparr>)"
    by (simp add: map_of_dict_set)
  have "\<not> validate_data (p\<lparr>process := f\<rparr>) dat" using a by simp
  from engine_rejects [OF r this, of metadata w]
  show "PatternEngine_process (dict_set patterns name (p\<lparr>process := f\<rparr>)) dat name metadata w
               = (Inl (ValueError (''Data validation failed for pattern '' @ [CHR 0x27] @ name
                         @ [CHR 0x27] @ ''. Required keys: '' @ repr_keys (get_required_keys p)
                         @ '', Optional keys: '' @ repr_keys (get_optional_keys p))), w)"
    by simp
qed

theorem validation_before_calls_witness:
  "\<not> has_key image_only ''text''
   \<and> map_of demo_registry ''hybrid'' = Some (HybridPattern offline)
   \<and> hybrid_process offline image_only None fresh_world
       = (Inl (ValueError (''Pattern '' @ [CHR 0x27] @ ''hybrid'' @ [CHR 0x27]
                 @ '' requires keys ['' @ [CHR 0x27] @ ''text'' @ [CHR 0x27]
                 @ ''], but missing: ['' @ [CHR 0x27] @ ''text'' @ [CHR 0x27] @ '']'')),
          fresh_world)
   \<and> fst (PatternEngine_process demo_registry image_only ''hybrid'' None fresh_world)
       = Inl (ValueError (''Data validation failed for pattern '' @ [CHR 0x27] @ ''hybrid''
                @ [CHR 0x27] @ ''. Required keys: ['' @ [CHR 0x27] @ ''text'' @ [CHR 0x27]
                @ ''], Optional keys: ['' @ [CHR 0x27] @ ''image'' @ [CHR 0x27] @ '']''))
   \<and> calls (snd (PatternEngine_process demo_registry image_only ''hybrid'' None fresh_world)) = []
   \<and> map_of short_text ''text'' = Some (DStr (ustr_of ''too short to summarize''))
   \<and> length (ustr_of ''too short to summarize'') < 1000
   \<and> map_of demo_registry ''summarize'' = Some (SummarizePattern offline default_summarize)
   \<and> \<not> summarize_validate_data default_summarize short_text
   \<and> snd (PatternEngine_process demo_registry short_text ''summarize'' None fresh_world)
       = fresh_world"
proof -
  have h: "\<not> has_key image_only ''text''"
    by (simp add: image_only_def has_key_def)
  have rh: "map_of demo_registry ''hybrid'' = Some (HybridPattern offline)"
    by (simp add: demo_registry_def register_pattern_def HybridPattern_def SummarizePattern_def)
  have rs: "map_of demo_registry ''summarize'' = Some (SummarizePattern offline default_summarize)"
    by (simp add: demo_registry_def register_pattern_def HybridPattern_def SummarizePattern_def)
  have t: "map_of short_text ''text'' = Some (DStr (ustr_of ''too short to summarize''))"
    "length (ustr_of ''too short to summarize'') < 1000"
    by (simp_all add: short_text_def ustr_of_def)
  from validation_before_calls [of image_only offline None fresh_world demo_registry
      "ustr_of ''too short to summarize''" _ _] h rh
  have a: "hybrid_process offline image_only None fresh_world
        = (Inl (ValueError (''Pattern '' @ [CHR 0x27] @ ''hybrid'' @ [CHR 0x27]
                  @ '' requires keys '' @ repr_keys [''text''] @ '', but missing: ''
                  @ repr_keys [''text''])), fresh_world)"
    and b: "PatternEngine_process demo_registry image_only ''hybrid'' None fresh_world
             = (Inl (ValueError (''Data validation failed for pattern '' @ [CHR 0x27] @ ''hybrid''
                       @ [CHR 0x27] @ ''. Required keys: '' @ repr_keys [''text'']
                       @ '', Optional keys: '' @ repr_keys [''image''])), fresh_world)"
    by blast+
  from validation_before_calls [of short_text offline None fresh_world demo_registry
      "ustr_of ''too short to summarize''" _ _] t rs
  have c: "\<not> summarize_validate_data default_summarize short_text"
    and d: "PatternEngine_process demo_registry short_text ''summarize'' None fresh_world
               = (Inl (ValueError (''Data validation failed for pattern '' @ [CHR 0x27]
                         @ ''summarize'' @ [CHR 0x27] @ ''. Required keys: '' @ repr_keys [''text'']
                         @ '', Optional keys: '' @ repr_keys [])), fresh_world)"
    by blast+
  have k: "repr_keys [''text''] = ''['' @ [CHR 0x27] @ ''text'' @ [CHR 0x27] @ '']''"
    "repr_keys [''image''] = ''['' @ [CHR 0x27] @ ''image'' @ [CHR 0x27] @ '']''"
    by (simp_all add: repr_keys_def repr_str_def)
  from h rh rs t a b c d show ?thesis
    by (simp add: k fresh_world_def)
qed

end
